theory Spec2Isabelle
  imports Main "HOL-Library.Word"
begin

section \<open>Fuji acquisition engine: shared data model\<close>

text \<open>
  The development follows \<^verbatim>\<open>acquisition/abstract.py\<close> (class \<^verbatim>\<open>AcquisitionMethod\<close>)
  and \<^verbatim>\<open>acquisition/snapshot.py\<close> (class \<^verbatim>\<open>SnapshotMountMethod\<close>).

  Python exceptions are values of \<open>error\<close>; a function that can raise returns
  \<open>error + 'a\<close>.  \<open>Hang\<close> is not an exception: it stands for a loop that never returns.
\<close>

datatype error = IndexError | AttributeError | OSError | OverflowError | ZeroDivisionError | Hang

text \<open>
  Everything a method does to the outside world is appended to a trace of events: the
  command lines it runs, the console echo of a streamed command, the pauses of
  \<^verbatim>\<open>time.sleep\<close>, the log file of a streamed command, the directories it creates and the files it writes
  (\<open>Write f ls\<close>: file \<open>f\<close> holds the lines \<open>ls\<close> when it is closed).
\<close>

datatype event =
    Run "string list"
  | Echo string
  | Sleep nat
  | Tee string string
  | Mkdir string
  | Write string "string list"

text \<open>
  The environment answers for the host: \<open>proc\<close> gives the exit status and the captured
  output of a command line, as a function of everything that happened before it (so that a
  command may fail at first and succeed when repeated); \<open>now\<close> is the clock; the other
  fields are the file system queries of \<^verbatim>\<open>os\<close> and \<^verbatim>\<open>os.path\<close>, where \<open>None\<close> is
  an \<^verbatim>\<open>OSError\<close>.  Text is a list of 8-bit characters and a path is modelled by its text.
  Every command can be started and ends, and directories and files can be created: a
  missing executable or an unwritable destination is outside the model.
\<close>

record env =
  proc :: "event list \<Rightarrow> string list \<Rightarrow> int \<times> string"
  now :: "event list \<Rightarrow> string"
  ismount :: "string \<Rightarrow> bool"
  statvfs :: "string \<Rightarrow> (nat \<times> nat) option"
  stat_dev :: "string \<Rightarrow> nat option"
  realpath :: "string \<Rightarrow> string"

section \<open>Running external commands\<close>

definition caffeinate :: "bool \<Rightarrow> string list \<Rightarrow> string list" where
  "caffeinate awake arguments =
     (if awake then [''caffeinate'', ''-dimsu''] @ arguments else arguments)"

definition run_silent :: "env \<Rightarrow> string list \<Rightarrow> bool \<Rightarrow> event list \<Rightarrow> (int \<times> string) \<times> event list" where
  "run_silent E arguments awake tr =
     (let args = caffeinate awake arguments
      in (proc E tr args, tr @ [Run args]))"

text \<open>
  \<^verbatim>\<open>_run_process\<close> reads the child's output until the child has exited, echoing what it
  reads; the model takes the whole output at once.
\<close>

definition run_process :: "env \<Rightarrow> string list \<Rightarrow> bool \<Rightarrow> event list \<Rightarrow> (int \<times> string) \<times> event list" where
  "run_process E arguments awake tr =
     (let args = caffeinate awake arguments;
          p = proc E tr args
      in (p, tr @ [Run args, Echo (snd p)]))"

section \<open>Detaching the temporary image\<close>

text \<open>
  \<^verbatim>\<open>_detach_temporary_image\<close>, lines 169-182.  The variable \<^verbatim>\<open>result\<close> starts as
  \<^verbatim>\<open>False\<close> (which is the integer 0) and then holds the exit status; the loop condition
  \<^verbatim>\<open>not result\<close> holds exactly when it is 0.
\<close>

function detach_loop ::
  "env \<Rightarrow> string \<Rightarrow> nat \<Rightarrow> int \<Rightarrow> int \<Rightarrow> int \<Rightarrow> event list \<Rightarrow> bool \<times> event list" where
  "detach_loop E volume interval attempts result i tr =
     (if result \<noteq> 0 then (False, tr)
      else
        (case run_process E [''hdiutil'', ''detach'', volume] True tr of
           ((result', _), tr1) \<Rightarrow>
             if result' = 0 then (True, tr1)
             else
               (let i' = i + 1
                in if i' = attempts then (False, tr1)
                   else detach_loop E volume interval attempts result' i' (tr1 @ [Sleep interval]))))"
  by pat_completeness auto
termination
  by (relation "measure (\<lambda>(E, volume, interval, attempts, result, i, tr). if result = 0 then 1 else 0)")
     auto

definition detach_temporary_image ::
  "env \<Rightarrow> string \<Rightarrow> nat \<Rightarrow> nat \<Rightarrow> int \<Rightarrow> event list \<Rightarrow> bool \<times> event list" where
  "detach_temporary_image E volume delay interval attempts tr =
     detach_loop E volume interval attempts 0 1 (tr @ [Sleep delay])"

section \<open>Text operations of Python\<close>

text \<open>
  \<open>is_space\<close> is \<^verbatim>\<open>str.isspace\<close> on the code points below 256, which is also what
  \<^verbatim>\<open>\\s\<close> matches; \<open>is_linebreak\<close> lists the line boundaries of \<^verbatim>\<open>str.splitlines\<close>,
  where a carriage return followed by a line feed counts once.  \<open>item\<close> is indexing
  with a non-negative index.
\<close>

definition is_space :: "char \<Rightarrow> bool" where
  "is_space c =
     (let n = (of_char c :: nat)
      in (9 \<le> n \<and> n \<le> 13) \<or> (28 \<le> n \<and> n \<le> 32) \<or> n = 133 \<or> n = 160)"

definition is_linebreak :: "char \<Rightarrow> bool" where
  "is_linebreak c =
     (let n = (of_char c :: nat)
      in (10 \<le> n \<and> n \<le> 13) \<or> (28 \<le> n \<and> n \<le> 30) \<or> n = 133)"

fun splitlines_from :: "string \<Rightarrow> string \<Rightarrow> string list" where
  "splitlines_from line [] = (if line = [] then [] else [line])"
| "splitlines_from line [c] = (if is_linebreak c then [line] else [line @ [c]])"
| "splitlines_from line (c # d # cs) =
     (if c = CHR 0x0D \<and> d = CHR 0x0A then line # splitlines_from [] cs
      else if is_linebreak c then line # splitlines_from [] (d # cs)
      else splitlines_from (line @ [c]) (d # cs))"

definition splitlines :: "string \<Rightarrow> string list" where
  "splitlines s = splitlines_from [] s"

fun split_from :: "char \<Rightarrow> string \<Rightarrow> string \<Rightarrow> string list" where
  "split_from sep field [] = [field]"
| "split_from sep field (c # cs) =
     (if c = sep then field # split_from sep [] cs else split_from sep (field @ [c]) cs)"

definition split_sep :: "char \<Rightarrow> string \<Rightarrow> string list" where
  "split_sep sep s = split_from sep [] s"

definition strip :: "string \<Rightarrow> string" where
  "strip s = rev (dropWhile is_space (rev (dropWhile is_space s)))"

definition item :: "'a list \<Rightarrow> nat \<Rightarrow> error + 'a" where
  "item xs i = (if i < length xs then Inr (xs ! i) else Inl IndexError)"

fun split_ws_from :: "string \<Rightarrow> string \<Rightarrow> string list" where
  "split_ws_from word [] = (if word = [] then [] else [word])"
| "split_ws_from word (c # cs) =
     (if is_space c
      then (if word = [] then split_ws_from [] cs else word # split_ws_from [] cs)
      else split_ws_from (word @ [c]) cs)"

definition split_ws :: "string \<Rightarrow> string list" where
  "split_ws s = split_ws_from [] s"

fun re_split_ws :: "nat \<Rightarrow> string \<Rightarrow> string list" where
  "re_split_ws 0 s = [s]"
| "re_split_ws (Suc n) s =
     (let field = takeWhile (\<lambda>c. \<not> is_space c) s;
          rest = dropWhile (\<lambda>c. \<not> is_space c) s
      in if rest = [] then [field] else field # re_split_ws n (dropWhile is_space rest))"

fun starts_with :: "string \<Rightarrow> string \<Rightarrow> bool" where
  "starts_with [] s = True"
| "starts_with (a # as) [] = False"
| "starts_with (a # as) (c # cs) = (a = c \<and> starts_with as cs)"

fun contains :: "string \<Rightarrow> string \<Rightarrow> bool" where
  "contains sub [] = (sub = [])"
| "contains sub (c # cs) = (starts_with sub (c # cs) \<or> contains sub cs)"

section \<open>Sector count\<close>

text \<open>
  Line 104 computes \<^verbatim>\<open>int(f_blocks * f_frsize / 512)\<close>.  On integers \<^verbatim>\<open>/\<close> is true
  division: its result is the double nearest to the exact quotient (ties to the even
  mantissa), or \<^verbatim>\<open>OverflowError\<close> when that is beyond the doubles; \<^verbatim>\<open>int\<close> then
  truncates.  Dividing by 512 only changes the exponent, so the quotient is rounded as the
  product is: \<open>nearest_double a\<close> is \<open>a\<close> rounded to 53 significant bits.
\<close>

fun bit_length :: "nat \<Rightarrow> nat" where
  "bit_length n = (if n = 0 then 0 else Suc (bit_length (n div 2)))"

declare bit_length.simps [simp del]

definition nearest_double :: "nat \<Rightarrow> nat" where
  "nearest_double a =
     (let k = bit_length a
      in if k \<le> 53 then a
         else
           (let sh = k - 53; q = a div 2 ^ sh; r = a mod 2 ^ sh; half = 2 ^ (sh - 1)
            in (if half < r \<or> (r = half \<and> odd q) then q + 1 else q) * 2 ^ sh))"

definition int_truediv_512 :: "nat \<Rightarrow> error + int" where
  "int_truediv_512 a =
     (let x = nearest_double a
      in if 2 ^ 1033 \<le> x then Inl OverflowError else Inr (int (x div 512)))"

section \<open>Inspecting a path\<close>

text \<open>
  \<^verbatim>\<open>os.path.dirname\<close>: everything up to the last slash, without trailing slashes
  unless it consists of slashes only.
\<close>

definition dirname :: "string \<Rightarrow> string" where
  "dirname p =
     (let head = rev (dropWhile (\<lambda>c. c \<noteq> CHR ''/'') (rev p))
      in if head \<noteq> [] \<and> head \<noteq> replicate (length head) CHR ''/''
         then rev (dropWhile (\<lambda>c. c = CHR ''/'') (rev head))
         else head)"

lemma rev_dropWhile_rev_prefix: "\<exists>t. p = rev (dropWhile P (rev p)) @ t"
proof -
  have "rev (dropWhile P (rev p)) @ rev (takeWhile P (rev p))
          = rev (takeWhile P (rev p) @ dropWhile P (rev p))"
    by (simp only: rev_append)
  also have "\<dots> = rev (rev p)" by (simp only: takeWhile_dropWhile_id)
  also have "\<dots> = p" by simp
  finally have "p = rev (dropWhile P (rev p)) @ rev (takeWhile P (rev p))" by (rule sym)
  then show ?thesis ..
qed

lemma dirname_prefix: "\<exists>t. p = dirname p @ t"
proof -
  define head where "head = rev (dropWhile (\<lambda>c. c \<noteq> CHR ''/'') (rev p))"
  define d where "d = rev (dropWhile (\<lambda>c. c = CHR ''/'') (rev head))"
  obtain t1 where t1: "p = head @ t1"
    unfolding head_def using rev_dropWhile_rev_prefix by blast
  obtain t2 where t2: "head = d @ t2"
    unfolding d_def using rev_dropWhile_rev_prefix by blast
  have "dirname p = d \<or> dirname p = head"
    unfolding dirname_def Let_def head_def [symmetric] d_def [symmetric] by simp
  then show ?thesis
  proof
    assume "dirname p = d"
    with t1 t2 have "p = dirname p @ (t2 @ t1)" by simp
    then show ?thesis ..
  next
    assume "dirname p = head"
    with t1 have "p = dirname p @ t1" by simp
    then show ?thesis ..
  qed
qed

lemma dirname_shorter: "dirname p \<noteq> p \<Longrightarrow> length (dirname p) < length p"
proof -
  assume ne: "dirname p \<noteq> p"
  obtain t where t: "p = dirname p @ t" using dirname_prefix by blast
  with ne have "t \<noteq> []" by auto
  then have "length (dirname p) < length (dirname p @ t)" by simp
  with t show ?thesis by simp
qed

text \<open>
  \<^verbatim>\<open>_find_mount_point\<close>, lines 95-99.  When \<^verbatim>\<open>dirname\<close> no longer changes a path
  that is not a mount point the loop of the source runs forever: the result is \<open>None\<close>.
\<close>

function find_mount_loop :: "env \<Rightarrow> string \<Rightarrow> string option" where
  "find_mount_loop E path =
     (if ismount E path then Some path
      else if dirname path = path then None
      else find_mount_loop E (dirname path))"
  by pat_completeness auto
termination
  by (relation "measure (\<lambda>(E, path). length path)") (auto simp: dirname_shorter)

declare find_mount_loop.simps [simp del]

definition find_mount_point :: "env \<Rightarrow> string \<Rightarrow> string option" where
  "find_mount_point E path = find_mount_loop E (realpath E path)"

lemma find_mount_loop_ismount: "find_mount_loop E p = Some m \<Longrightarrow> ismount E m"
proof (induction E p rule: find_mount_loop.induct)
  case (1 E path)
  then show ?case
    by (subst (asm) (2) find_mount_loop.simps) (auto split: if_splits)
qed

record PathDetails =
  path :: string
  is_disk :: bool
  disk_sectors :: int
  disk_device :: string
  disk_identifier :: nat
  disk_info :: string

definition make_details ::
  "env \<Rightarrow> string \<Rightarrow> bool \<Rightarrow> int \<Rightarrow> string \<Rightarrow> string \<Rightarrow> error + PathDetails" where
  "make_details E p isd sectors device info =
     (case stat_dev E p of
        None \<Rightarrow> Inl OSError
      | Some dev \<Rightarrow>
          Inr \<lparr> path = p, is_disk = isd, disk_sectors = sectors, disk_device = device,
                disk_identifier = dev, disk_info = info \<rparr>)"

text \<open>\<^verbatim>\<open>_gather_path_info\<close>, lines 101-130.\<close>

function gather_path_info ::
  "env \<Rightarrow> string \<Rightarrow> event list \<Rightarrow> (error + PathDetails) \<times> event list" where
  "gather_path_info E p tr =
     (let is_disk = ismount E p
      in case statvfs E p of
           None \<Rightarrow> (Inl OSError, tr)
         | Some (f_blocks, f_frsize) \<Rightarrow>
             (case int_truediv_512 (f_blocks * f_frsize) of
                Inl e \<Rightarrow> (Inl e, tr)
              | Inr sectors \<Rightarrow>
                  if is_disk then
                    (case run_silent E [''diskutil'', ''info'', p] True tr of
                       ((result, info), tr1) \<Rightarrow>
                         (let lines = splitlines info
                          in if result = 0 then
                               (case item lines 1 of
                                  Inl e \<Rightarrow> (Inl e, tr1)
                                | Inr line \<Rightarrow>
                                    (case item (split_sep CHR '':'' line) 1 of
                                       Inl e \<Rightarrow> (Inl e, tr1)
                                     | Inr field \<Rightarrow>
                                         (make_details E p True sectors (strip field) info, tr1)))
                             else (make_details E p False sectors [] info, tr1)))
                  else
                    (case find_mount_point E p of
                       None \<Rightarrow> (Inl Hang, tr)
                     | Some mount_point \<Rightarrow>
                         (case gather_path_info E mount_point tr of
                            (Inl e, tr1) \<Rightarrow> (Inl e, tr1)
                          | (Inr mount_info, tr1) \<Rightarrow>
                              (make_details E p False sectors (disk_device mount_info)
                                 (disk_info mount_info), tr1)))))"
  by pat_completeness auto

termination
  apply (relation "measure (\<lambda>(E, p, tr). if ismount E p then 0 else 1)")
   apply simp
  apply (simp only: in_measure prod.case find_mount_point_def)
  apply (drule find_mount_loop_ismount)
  apply simp
  done

declare gather_path_info.simps [simp del]

section \<open>Hashing a file\<close>

text \<open>
  \<^verbatim>\<open>hashlib\<close> is a library: its three algorithms are parameters, each a function from
  the bytes hashed to a digest of 128, 160 and 256 bits.  A hash object is modelled by the
  bytes it has been fed: \<^verbatim>\<open>update\<close> appends a chunk, and \<^verbatim>\<open>hexdigest\<close> writes the
  digest of all of them with two lowercase hexadecimal digits per byte, which is the
  contract of \<^verbatim>\<open>hashlib\<close>.
\<close>

type_synonym byte = "8 word"

record hashlib =
  md5_digest :: "byte list \<Rightarrow> 128 word"
  sha1_digest :: "byte list \<Rightarrow> 160 word"
  sha256_digest :: "byte list \<Rightarrow> 256 word"

definition hex_digit :: "nat \<Rightarrow> char" where
  "hex_digit n = ''0123456789abcdef'' ! (n mod 16)"

definition hexdigest :: "'a::len word \<Rightarrow> string" where
  "hexdigest w = map (\<lambda>i. hex_digit (unat (drop_bit (4 * i) w))) (rev [0..<LENGTH('a) div 4])"

record HashedFile =
  path :: string
  md5 :: string
  sha1 :: string
  sha256 :: string

text \<open>
  Console output of \<^verbatim>\<open>_compute_hashes\<close>: \<open>Line s\<close> is \<^verbatim>\<open>print(s)\<close> (the text and a line
  break), \<open>Marker n\<close> is \<^verbatim>\<open>print(f"{n}% ", end="")\<close>.
\<close>

datatype console = Line string | Marker nat

definition chunk_size :: nat where
  "chunk_size = 16 * 1024"

record hashing =
  sha1_fed :: "byte list"
  sha256_fed :: "byte list"
  md5_fed :: "byte list"
  amount :: nat
  last_percent :: nat
  printed :: "console list"

text \<open>
  The loop of lines 216-231.  \<open>f\<close> is what is left of the file; \<^verbatim>\<open>f.read(chunk_size)\<close>
  takes up to \<open>chunk_size\<close> bytes from its front.  \<open>total_size\<close> is \<^verbatim>\<open>st_size\<close>.
\<close>

function hash_loop :: "nat \<Rightarrow> byte list \<Rightarrow> hashing \<Rightarrow> error + hashing" where
  "hash_loop total_size f h =
     (let chunk = take chunk_size f
      in if chunk = [] then Inr (h \<lparr> printed := printed h @ [Line []] \<rparr>)
         else
           (let h1 = h \<lparr> sha1_fed := sha1_fed h @ chunk,
                         sha256_fed := sha256_fed h @ chunk,
                         md5_fed := md5_fed h @ chunk,
                         amount := amount h + chunk_size \<rparr>
            in if total_size = 0 then Inl ZeroDivisionError
               else
                 (let percent = 100 * amount h1 div total_size
                  in hash_loop total_size (drop chunk_size f)
                       (if last_percent h1 < percent
                        then h1 \<lparr> printed := printed h1 @ [Marker percent]
                                     @ (if percent mod 20 = 0 then [Line []] else []),
                                   last_percent := percent \<rparr>
                        else h1))))"
  by pat_completeness auto
termination
  by (relation "measure (\<lambda>(total_size, f, h). length f)") (auto simp: chunk_size_def)

declare hash_loop.simps [simp del]

text \<open>The state at line 215: three fresh hash objects, and the first line printed.\<close>

definition fresh_hashing :: "string \<Rightarrow> hashing" where
  "fresh_hashing p =
     \<lparr> sha1_fed = [], sha256_fed = [], md5_fed = [], amount = 0, last_percent = 0,
       printed = [Line (CHR 0x0A # ''Hashing '' @ p)] \<rparr>"

text \<open>
  \<^verbatim>\<open>_compute_hashes\<close>, lines 203-236, for a file at \<open>p\<close> whose \<^verbatim>\<open>st_size\<close> is
  \<open>total_size\<close> and whose bytes are \<open>content\<close>.
\<close>

definition compute_hashes ::
  "hashlib \<Rightarrow> string \<Rightarrow> nat \<Rightarrow> byte list \<Rightarrow> error + HashedFile \<times> console list" where
  "compute_hashes L p total_size content =
     (case hash_loop total_size content (fresh_hashing p) of
        Inl e \<Rightarrow> Inl e
      | Inr h \<Rightarrow>
          Inr (\<lparr> path = p,
                 md5 = hexdigest (md5_digest L (md5_fed h)),
                 sha1 = hexdigest (sha1_digest L (sha1_fed h)),
                 sha256 = hexdigest (sha256_digest L (sha256_fed h)) \<rparr>, printed h))"

section \<open>The report\<close>

record Parameters =
  case_name :: string
  examiner :: string
  "notes" :: string
  image_name :: string
  source :: string
  tmp :: string
  destination :: string

record Report =
  parameters :: Parameters
  method_name :: string
  start_time :: "string option"
  end_time :: "string option"
  path_details :: "PathDetails option"
  hardware_info :: string
  success :: bool
  output_files :: "string list"
  result :: "HashedFile option"

text \<open>
  \<^verbatim>\<open>pathlib\<close>: \<open>Path s\<close> is the text of \<^verbatim>\<open>Path(s)\<close>, which drops empty and \<^verbatim>\<open>.\<close>
  components and keeps a leading slash (two of them when there are exactly two);
  \<open>path_join d name\<close> is \<^verbatim>\<open>d / name\<close> for a path \<open>d\<close>, where an absolute \<open>name\<close>
  replaces \<open>d\<close>.
\<close>

fun join_with :: "string \<Rightarrow> string list \<Rightarrow> string" where
  "join_with sep [] = []"
| "join_with sep [x] = x"
| "join_with sep (x # y # ys) = x @ sep @ join_with sep (y # ys)"

definition Path :: "string \<Rightarrow> string" where
  "Path s =
     (let root = (if take 2 s = ''//'' \<and> take 3 s \<noteq> ''///'' then ''//''
                  else if take 1 s = ''/'' then ''/'' else []);
          parts = filter (\<lambda>c. c \<noteq> [] \<and> c \<noteq> ''.'') (split_sep CHR ''/'' s);
          text = root @ join_with ''/'' parts
      in if text = [] then ''.'' else text)"

definition path_join :: "string \<Rightarrow> string \<Rightarrow> string" where
  "path_join d name = (if take 1 name = ''/'' then Path name else Path (d @ ''/'' @ name))"

definition gather_hardware_info :: "env \<Rightarrow> event list \<Rightarrow> string \<times> event list" where
  "gather_hardware_info E tr =
     (case run_silent E [''system_profiler'', ''SPHardwareDataType''] True tr of
        ((_, info), tr1) \<Rightarrow> (info, tr1))"

definition str_of :: "string option \<Rightarrow> string" where
  "str_of t = (case t of None \<Rightarrow> ''None'' | Some s \<Rightarrow> s)"

definition report_lines :: "Report \<Rightarrow> PathDetails \<Rightarrow> HashedFile \<Rightarrow> string list" where
  "report_lines report details hashed =
     (let separator = replicate 80 CHR ''-''
      in [''Fuji - Forensic Unattended Juicy Imaging'',
          ''Acquisition log'',
          separator,
          ''Case name: '' @ case_name (parameters report),
          ''Examiner: '' @ examiner (parameters report),
          ''Notes: '' @ notes (parameters report),
          separator,
          ''Start time: '' @ str_of (start_time report),
          ''End time: '' @ str_of (end_time report),
          ''Source: '' @ source (parameters report),
          ''Acquisition method: '' @ method_name report,
          separator,
          hardware_info report,
          separator,
          disk_info details,
          separator,
          ''Generated files:'']
         @ map (\<lambda>file. ''    - '' @ file) (output_files report)
         @ [separator,
            ''Computed hashes ('' @ HashedFile.path hashed @ ''):'',
            ''    - MD5: '' @ md5 hashed,
            ''    - SHA1: '' @ sha1 hashed,
            ''    - SHA256: '' @ sha256 hashed])"

text \<open>
  \<^verbatim>\<open>_write_report\<close>, lines 238-279.  The file is opened before the list of lines is
  built; building it reads \<^verbatim>\<open>report.path_details.disk_info\<close> and
  \<^verbatim>\<open>report.result.path\<close>, which raise \<^verbatim>\<open>AttributeError\<close> on \<^verbatim>\<open>None\<close> and leave the
  file empty.
\<close>

definition write_report :: "Report \<Rightarrow> event list \<Rightarrow> (error + unit) \<times> event list" where
  "write_report report tr =
     (let params = parameters report;
          output_directory = path_join (destination params) (image_name params);
          output_report = path_join output_directory (image_name params @ ''.txt'');
          tr1 = tr @ [Mkdir output_directory]
      in case path_details report of
           None \<Rightarrow> (Inl AttributeError, tr1 @ [Write output_report []])
         | Some details \<Rightarrow>
             (case result report of
                None \<Rightarrow> (Inl AttributeError, tr1 @ [Write output_report []])
              | Some hashed \<Rightarrow>
                  (Inr (), tr1 @ [Write output_report (report_lines report details hashed)])))"

section \<open>The snapshot-mount method\<close>

text \<open>
  Modelled from the spec: \<^verbatim>\<open>_run_status\<close>, which \<^verbatim>\<open>snapshot.py\<close> calls and neither source
  file defines.  Following the streamed runner of section 4.1 of the specification and its
  two call sites, it runs the command like \<^verbatim>\<open>_run_process\<close> (kept awake, output echoed),
  copies the output to the file \<^verbatim>\<open>tee\<close> when one is given, and returns the exit status.
\<close>

definition run_status ::
  "env \<Rightarrow> string list \<Rightarrow> string option \<Rightarrow> event list \<Rightarrow> int \<times> event list" where
  "run_status E arguments tee tr =
     (let args = caffeinate True arguments;
          p = proc E tr args
      in (fst p, tr @ [Run args, Echo (snd p)]
                    @ (case tee of None \<Rightarrow> [] | Some file \<Rightarrow> [Tee file (snd p)])))"

text \<open>The two AppleScript texts are abbreviated to their \<^verbatim>\<open>choose\<close> line.\<close>

definition image_script :: string where
  "image_script = ''choose file with prompt Select a snapshot image to mount:''"

definition destination_script :: string where
  "destination_script = ''choose folder with prompt Select a destination folder for the copied files:''"

text \<open>
  \<^verbatim>\<open>subprocess.run(..., check=True)\<close> raises \<^verbatim>\<open>CalledProcessError\<close> on a nonzero exit
  status, which both choosers catch and turn into \<^verbatim>\<open>None\<close>.
\<close>

definition prompt_for_image :: "env \<Rightarrow> event list \<Rightarrow> string option \<times> event list" where
  "prompt_for_image E tr =
     (let args = [''osascript'', ''-e'', image_script];
          p = proc E tr args
      in (if fst p = 0 then Some (strip (snd p)) else None, tr @ [Run args]))"

definition prompt_for_destination :: "env \<Rightarrow> event list \<Rightarrow> string option \<times> event list" where
  "prompt_for_destination E tr =
     (let args = [''osascript'', ''-e'', destination_script];
          p = proc E tr args
      in (if fst p = 0 then Some (strip (snd p)) else None, tr @ [Run args]))"

text \<open>\<^verbatim>\<open>not x\<close> for a value that is \<^verbatim>\<open>None\<close> or a string.\<close>

definition falsy :: "string option \<Rightarrow> bool" where
  "falsy x = (case x of None \<Rightarrow> True | Some s \<Rightarrow> s = [])"

definition mount_snapshot_image ::
  "env \<Rightarrow> string \<Rightarrow> event list \<Rightarrow> string option \<times> event list" where
  "mount_snapshot_image E image_path tr =
     (case run_process E [''hdiutil'', ''attach'', image_path] True tr of
        ((status, output), tr1) \<Rightarrow>
          if status \<noteq> 0 then (None, tr1)
          else
            (let output_lines = splitlines (strip output);
                 volume_lines = filter (contains ''/Volumes'') output_lines
             in case volume_lines of
                  [] \<Rightarrow> (None, tr1)
                | mount_line # _ \<Rightarrow>
                    (let parts = re_split_ws 2 mount_line
                     in if length parts < 3 then (None, tr1)
                        else (Some (parts ! 2), tr1))))"

text \<open>
  \<^verbatim>\<open>subprocess.check_output\<close> raises \<^verbatim>\<open>CalledProcessError\<close> on a nonzero exit status,
  which is caught; \<^verbatim>\<open>data_line.split()[0]\<close> raises \<^verbatim>\<open>IndexError\<close> on a blank line,
  which is not.
\<close>

definition get_disk_device_from_mount ::
  "env \<Rightarrow> string \<Rightarrow> event list \<Rightarrow> (error + string option) \<times> event list" where
  "get_disk_device_from_mount E mount_point tr =
     (let args = [''df'', mount_point];
          p = proc E tr args;
          tr1 = tr @ [Run args]
      in if fst p \<noteq> 0 then (Inr None, tr1)
         else
           (let lines = splitlines (strip (snd p))
            in if length lines < 2 then (Inr None, tr1)
               else
                 (case item (split_ws (lines ! 1)) 0 of
                    Inl e \<Rightarrow> (Inl e, tr1)
                  | Inr device \<Rightarrow> (Inr (Some device), tr1))))"

definition detach_mounted_image ::
  "env \<Rightarrow> string \<Rightarrow> event list \<Rightarrow> (error + bool) \<times> event list" where
  "detach_mounted_image E mount_point tr =
     (case get_disk_device_from_mount E mount_point tr of
        (Inl e, tr1) \<Rightarrow> (Inl e, tr1)
      | (Inr device, tr1) \<Rightarrow>
          if falsy device then (Inr False, tr1)
          else
            (case run_status E [''hdiutil'', ''detach'', the device] None tr1 of
               (status, tr2) \<Rightarrow> (Inr (status = 0), tr2)))"

definition copy_with_ditto ::
  "env \<Rightarrow> string \<Rightarrow> string \<Rightarrow> event list \<Rightarrow> bool \<times> event list" where
  "copy_with_ditto E src dst tr =
     (let output_directory = Path dst;
          log_file = path_join output_directory ''ditto_copy.log''
      in case run_status E [''ditto'', ''-c'', ''--keepParent'', src, dst] (Some log_file) tr of
           (status, tr1) \<Rightarrow> (status = 0, tr1))"

text \<open>
  \<^verbatim>\<open>SnapshotMountMethod.execute\<close>, lines 15-64, in two parts.  \<open>copy_and_report\<close> is
  lines 46-64: what \<^verbatim>\<open>execute\<close> does once the image is mounted and a destination is
  chosen.
\<close>

definition copy_and_report ::
  "env \<Rightarrow> Report \<Rightarrow> string \<Rightarrow> string \<Rightarrow> event list \<Rightarrow> (error + Report) \<times> event list" where
  "copy_and_report E report mounted_path destination_path tr =
     (case copy_with_ditto E mounted_path destination_path tr of
        (copied, tr1) \<Rightarrow>
     case detach_mounted_image E mounted_path tr1 of
        (Inl e, tr2) \<Rightarrow> (Inl e, tr2)
      | (Inr detached, tr2) \<Rightarrow>
     let report1 = report \<lparr> success := copied, end_time := Some (now E tr2) \<rparr>
     in if copied then
          (let output_path = Path destination_path;
               report2 = report1 \<lparr> output_files := output_files report1 @ [output_path] \<rparr>
           in case write_report report2 tr2 of
                (Inl e, tr3) \<Rightarrow> (Inl e, tr3)
              | (Inr _, tr3) \<Rightarrow> (Inr report2, tr3))
        else (Inr report1, tr2))"

definition execute :: "env \<Rightarrow> Parameters \<Rightarrow> event list \<Rightarrow> (error + Report) \<times> event list" where
  "execute E params tr =
     (let report0 = \<lparr> parameters = params, method_name = ''Snapshot Mount'',
                       start_time = Some (now E tr), end_time = None, path_details = None,
                       hardware_info = [], success = False, output_files = [], result = None \<rparr>
      in case gather_hardware_info E tr of
           (info, tr1) \<Rightarrow>
      let report1 = report0 \<lparr> hardware_info := info \<rparr>
      in case gather_path_info E (source params) tr1 of
           (Inl e, tr2) \<Rightarrow> (Inl e, tr2)
         | (Inr details, tr2) \<Rightarrow>
      let report2 = report1 \<lparr> path_details := Some details \<rparr>
      in case prompt_for_image E tr2 of
           (snapshot_image, tr3) \<Rightarrow>
      if falsy snapshot_image then (Inr report2, tr3)
      else case mount_snapshot_image E (the snapshot_image) tr3 of
           (mounted_path, tr4) \<Rightarrow>
      if falsy mounted_path then (Inr report2, tr4)
      else case prompt_for_destination E tr4 of
           (destination_path, tr5) \<Rightarrow>
      if falsy destination_path then
        (case detach_mounted_image E (the mounted_path) tr5 of
           (Inl e, tr6) \<Rightarrow> (Inl e, tr6)
         | (Inr _, tr6) \<Rightarrow> (Inr report2, tr6))
      else copy_and_report E report2 (the mounted_path) (the destination_path) tr5)"

text \<open>A run has reached the copy step when its trace holds a \<^verbatim>\<open>ditto\<close> command.\<close>

fun is_copy :: "event \<Rightarrow> bool" where
  "is_copy (Run args) = (take 3 args = [''caffeinate'', ''-dimsu'', ''ditto''])"
| "is_copy _ = False"

definition copy_attempted :: "event list \<Rightarrow> bool" where
  "copy_attempted tr = list_ex is_copy tr"

abbreviation volume_info :: "string \<Rightarrow> string list" where
  "volume_info p \<equiv> [''caffeinate'', ''-dimsu'', ''diskutil'', ''info'', p]"

abbreviation hardware_profile :: "string list" where
  "hardware_profile \<equiv> [''caffeinate'', ''-dimsu'', ''system_profiler'', ''SPHardwareDataType'']"

abbreviation copy_command :: "string \<Rightarrow> string \<Rightarrow> string list" where
  "copy_command src dst \<equiv> [''caffeinate'', ''-dimsu'', ''ditto'', ''-c'', ''--keepParent'', src, dst]"

section \<open>Hosts used in the examples\<close>

text \<open>The number of detach commands in a trace.\<close>

fun is_detach :: "event \<Rightarrow> bool" where
  "is_detach (Run args) = (take 4 args = [''caffeinate'', ''-dimsu'', ''hdiutil'', ''detach''])"
| "is_detach _ = False"

definition detach_attempts :: "event list \<Rightarrow> nat" where
  "detach_attempts tr = length (filter is_detach tr)"

text \<open>
  \<open>host special\<close> is a machine whose commands answer as \<open>usual_answer\<close> says, except
  where \<open>special\<close> gives another answer; both see the command line without the
  \<^verbatim>\<open>caffeinate\<close> prefix.  \<open>default_parameters\<close> are the defaults of the dataclass.
\<close>

definition default_parameters :: Parameters where
  "default_parameters =
     \<lparr> case_name = [], examiner = [], notes = [], image_name = ''FujiAcquisition'',
       source = ''/'', tmp = ''/Volumes/Fuji'', destination = ''/Volumes/Fuji'' \<rparr>"

definition command :: "string list \<Rightarrow> string list" where
  "command args = (if take 2 args = [''caffeinate'', ''-dimsu''] then drop 2 args else args)"

definition usual_answer :: "string list \<Rightarrow> int \<times> string" where
  "usual_answer c =
     (if take 1 c = [''system_profiler''] then (0, ''Hardware Overview'')
      else if take 2 c = [''diskutil'', ''info'']
        then (0, ''   Device Identifier:   disk3s1\<newline>   Device Node:   /dev/disk3s1\<newline>'')
      else if c = [''osascript'', ''-e'', image_script] then (0, ''/Users/lab/snapshot.dmg\<newline>'')
      else if c = [''osascript'', ''-e'', destination_script] then (0, ''/Volumes/Evidence/\<newline>'')
      else if take 2 c = [''hdiutil'', ''attach'']
        then (0, ''/dev/disk4  GUID_partition_scheme\<newline>/dev/disk4s1  Apple_APFS  /Volumes/Snap\<newline>'')
      else if take 1 c = [''df'']
        then (0, ''Filesystem 512-blocks Used Available Capacity Mounted on\<newline>/dev/disk4s1 1000 10 990 1% /Volumes/Snap\<newline>'')
      else (0, []))"

definition host :: "(string list \<Rightarrow> (int \<times> string) option) \<Rightarrow> env" where
  "host special =
     \<lparr> proc = (\<lambda>tr args. case special (command args) of
                              Some a \<Rightarrow> a
                            | None \<Rightarrow> usual_answer (command args)),
       now = (\<lambda>tr. if tr = [] then ''2024-05-01 10:00:00'' else ''2024-05-01 10:30:00''),
       ismount = (\<lambda>p. p = ''/'' \<or> p = ''/Volumes/Ext'' \<or> p = ''/Volumes/Archive''),
       statvfs = (\<lambda>p. if p = ''/Volumes/Archive'' then Some (9007199254740993, 4096)
                       else Some (1000, 512)),
       stat_dev = (\<lambda>p. Some 16777220),
       realpath = (\<lambda>p. p) \<rparr>"

definition host_usual :: env where
  "host_usual = host (\<lambda>c. None)"

definition host_copy_fails :: env where
  "host_copy_fails = host (\<lambda>c. if take 1 c = [''ditto''] then Some (1, ''ditto: error'') else None)"

definition host_image_cancelled :: env where
  "host_image_cancelled =
     host (\<lambda>c. if c = [''osascript'', ''-e'', image_script] then Some (1, []) else None)"

definition host_mount_fails :: env where
  "host_mount_fails =
     host (\<lambda>c. if take 2 c = [''hdiutil'', ''attach''] then Some (1, ''attach failed'') else None)"

definition host_destination_cancelled :: env where
  "host_destination_cancelled =
     host (\<lambda>c. if c = [''osascript'', ''-e'', destination_script] then Some (1, []) else None)"

definition host_short_volume_info :: env where
  "host_short_volume_info =
     host (\<lambda>c. if take 2 c = [''diskutil'', ''info''] then Some (0, []) else None)"

definition host_query_fails :: env where
  "host_query_fails =
     host (\<lambda>c. if c = [''diskutil'', ''info'', ''/Volumes/Ext'']
               then Some (1, ''Could not find disk'') else None)"

text \<open>Two hosts for the retry loop: every detach fails, or only the first one does.\<close>

definition host_always_busy :: env where
  "host_always_busy = host (\<lambda>c. Some (1, ''busy''))"

definition host_busy_once :: env where
  "host_busy_once =
     host_usual \<lparr> proc := (\<lambda>tr args. if detach_attempts tr = 0 then (1, ''busy'') else (0, [])) \<rparr>"

text \<open>Command lines and answers that the examples name.\<close>

abbreviation choose_image :: "string list" where
  "choose_image \<equiv> [''osascript'', ''-e'', image_script]"

abbreviation choose_destination :: "string list" where
  "choose_destination \<equiv> [''osascript'', ''-e'', destination_script]"

abbreviation attach :: "string \<Rightarrow> string list" where
  "attach img \<equiv> [''caffeinate'', ''-dimsu'', ''hdiutil'', ''attach'', img]"

abbreviation detach :: "string \<Rightarrow> string list" where
  "detach device \<equiv> [''caffeinate'', ''-dimsu'', ''hdiutil'', ''detach'', device]"

abbreviation attach_output :: string where
  "attach_output \<equiv> ''/dev/disk4  GUID_partition_scheme\<newline>/dev/disk4s1  Apple_APFS  /Volumes/Snap\<newline>''"

text \<open>What inspecting the paths of \<open>host\<close> gives, and the report of a run that got as far
  as the inspection of the source.\<close>

definition root_details :: PathDetails where
  "root_details =
     \<lparr> PathDetails.path = ''/'', is_disk = True, disk_sectors = 1000,
       disk_device = ''/dev/disk3s1'', disk_identifier = 16777220,
       disk_info = ''   Device Identifier:   disk3s1\<newline>   Device Node:   /dev/disk3s1\<newline>'' \<rparr>"

definition inspected_report :: Report where
  "inspected_report =
     \<lparr> parameters = default_parameters, method_name = ''Snapshot Mount'',
       start_time = Some ''2024-05-01 10:00:00'', end_time = None,
       path_details = Some root_details, hardware_info = ''Hardware Overview'',
       success = False, output_files = [], result = None \<rparr>"

definition archive_details :: PathDetails where
  "archive_details =
     \<lparr> PathDetails.path = ''/Volumes/Archive'', is_disk = True,
       disk_sectors = 72057594037927936,
       disk_device = ''/dev/disk3s1'', disk_identifier = 16777220,
       disk_info = ''   Device Identifier:   disk3s1\<newline>   Device Node:   /dev/disk3s1\<newline>'' \<rparr>"

definition unanswered_details :: PathDetails where
  "unanswered_details =
     \<lparr> PathDetails.path = ''/Volumes/Ext'', is_disk = False, disk_sectors = 1000,
       disk_device = [], disk_identifier = 16777220, disk_info = ''Could not find disk'' \<rparr>"

section \<open>Properties\<close>

subsection \<open>Detaching the temporary image\<close>

text \<open>
  C4 (the code departs from the claim).  With \<^verbatim>\<open>attempts=3\<close> the claim asks for three
  attempts against a detach command that always fails, and for success at the second
  attempt against one that fails once.  The loop of \<^verbatim>\<open>_detach_temporary_image\<close> runs
  the detach command once in both cases: after a failed attempt \<^verbatim>\<open>result\<close> holds the
  nonzero status, so \<^verbatim>\<open>while not result\<close> ends the loop, and the method returns
  \<^verbatim>\<open>False\<close> after the first pause of \<^verbatim>\<open>interval\<close> seconds.  On every host and for
  every number of attempts the command is run exactly once, and the result is whether that
  one run succeeded.
\<close>

theorem detach_temporary_image_single_attempt:
  "detach_temporary_image host_always_busy ''/dev/disk4'' 30 10 3 [] =
     (False, [Sleep 30, Run (detach ''/dev/disk4''), Echo ''busy'', Sleep 10])
   \<and> detach_temporary_image host_busy_once ''/dev/disk4'' 30 10 3 [] =
     (False, [Sleep 30, Run (detach ''/dev/disk4''), Echo ''busy'', Sleep 10])
   \<and> detach_attempts (snd (detach_temporary_image E volume delay interval attempts [])) = 1
   \<and> fst (detach_temporary_image E volume delay interval attempts [])
       = (fst (proc E [Sleep delay] (detach volume)) = 0)"
proof -
  have "detach_temporary_image host_always_busy ''/dev/disk4'' 30 10 3 [] =
     (False, [Sleep 30, Run (detach ''/dev/disk4''), Echo ''busy'', Sleep 10])"
    and "detach_temporary_image host_busy_once ''/dev/disk4'' 30 10 3 [] =
     (False, [Sleep 30, Run (detach ''/dev/disk4''), Echo ''busy'', Sleep 10])"
    by (simp_all add: detach_temporary_image_def host_always_busy_def host_busy_once_def
        host_usual_def host_def command_def run_process_def caffeinate_def detach_attempts_def)
  moreover
  have "detach_attempts (snd (detach_temporary_image E volume delay interval attempts [])) = 1"
    and "fst (detach_temporary_image E volume delay interval attempts [])
       = (fst (proc E [Sleep delay] (detach volume)) = 0)"
    by (simp_all add: detach_temporary_image_def run_process_def caffeinate_def
        detach_attempts_def Let_def split: prod.splits)
  ultimately show ?thesis by (simp only: simp_thms)
qed

subsection \<open>Hashing\<close>

lemma length_hexdigest: "length (hexdigest (w :: 'a::len word)) = LENGTH('a) div 4"
  by (simp add: hexdigest_def)

lemma hex_digit_lowercase: "hex_digit n \<in> set ''0123456789abcdef''"
proof -
  have "n mod 16 < length ''0123456789abcdef''" by simp
  then show ?thesis unfolding hex_digit_def by (rule nth_mem)
qed

lemma hexdigest_lowercase: "set (hexdigest w) \<subseteq> set ''0123456789abcdef''"
  unfolding hexdigest_def using hex_digit_lowercase by auto

lemma hash_loop_feeds:
  "0 < total_size \<or> f = [] \<Longrightarrow>
   \<exists>h'. hash_loop total_size f h = Inr h' \<and> md5_fed h' = md5_fed h @ f
        \<and> sha1_fed h' = sha1_fed h @ f \<and> sha256_fed h' = sha256_fed h @ f"
proof (induction total_size f h rule: hash_loop.induct)
  case (1 total_size f h)
  show ?case
  proof (cases "take chunk_size f = []")
    case True
    then have "f = []" by (simp add: chunk_size_def)
    then show ?thesis by (simp add: hash_loop.simps)
  next
    case False
    then have pos: "total_size \<noteq> 0" using "1.prems" by auto
    let ?h1 = "h \<lparr> sha1_fed := sha1_fed h @ take chunk_size f,
                    sha256_fed := sha256_fed h @ take chunk_size f,
                    md5_fed := md5_fed h @ take chunk_size f,
                    amount := amount h + chunk_size \<rparr>"
    let ?percent = "100 * amount ?h1 div total_size"
    let ?h2 = "if last_percent ?h1 < ?percent
               then ?h1 \<lparr> printed := printed ?h1 @ [Marker ?percent]
                            @ (if ?percent mod 20 = 0 then [Line []] else []),
                          last_percent := ?percent \<rparr>
               else ?h1"
    from pos have "0 < total_size \<or> drop chunk_size f = []" by simp
    from "1.IH" [OF refl False refl pos refl this]
    obtain h' where h': "hash_loop total_size (drop chunk_size f) ?h2 = Inr h'"
      "md5_fed h' = md5_fed ?h2 @ drop chunk_size f"
      "sha1_fed h' = sha1_fed ?h2 @ drop chunk_size f"
      "sha256_fed h' = sha256_fed ?h2 @ drop chunk_size f"
      by blast
    have step: "hash_loop total_size f h = hash_loop total_size (drop chunk_size f) ?h2"
      using False pos by (subst hash_loop.simps) (simp add: Let_def)
    show ?thesis
      using h' unfolding step by (auto split: if_splits)
  qed
qed

text \<open>
  C5.  For every file content, hashed with its length as \<^verbatim>\<open>st_size\<close>: the loop ends
  without an error having fed each of the three hash objects exactly the bytes of the file,
  in order, from the one sequence of reads; the three fields of the result are the
  hexadecimal digests that the reference algorithms give for those bytes; they are 32, 40
  and 64 characters long and made of the digits 0-9 and a-f only.
\<close>

theorem compute_hashes_digests:
  "\<exists>h hashed out.
     hash_loop (length content) content (fresh_hashing p) = Inr h
     \<and> md5_fed h = content \<and> sha1_fed h = content \<and> sha256_fed h = content
     \<and> compute_hashes L p (length content) content = Inr (hashed, out)
     \<and> md5 hashed = hexdigest (md5_digest L content)
     \<and> sha1 hashed = hexdigest (sha1_digest L content)
     \<and> sha256 hashed = hexdigest (sha256_digest L content)
     \<and> length (md5 hashed) = 32 \<and> length (sha1 hashed) = 40 \<and> length (sha256 hashed) = 64
     \<and> set (md5 hashed) \<union> set (sha1 hashed) \<union> set (sha256 hashed) \<subseteq> set ''0123456789abcdef''"
proof -
  have "0 < length content \<or> content = []" by auto
  from hash_loop_feeds [OF this, of "fresh_hashing p"]
  obtain h where h: "hash_loop (length content) content (fresh_hashing p) = Inr h"
    "md5_fed h = content" "sha1_fed h = content" "sha256_fed h = content"
    by (auto simp: fresh_hashing_def)
  have lower: "set (hexdigest (md5_digest L content)) \<union> set (hexdigest (sha1_digest L content))
          \<union> set (hexdigest (sha256_digest L content)) \<subseteq> set ''0123456789abcdef''"
    using hexdigest_lowercase [of "md5_digest L content"]
      hexdigest_lowercase [of "sha1_digest L content"]
      hexdigest_lowercase [of "sha256_digest L content"] by blast
  show ?thesis
    using h lower
    by (simp add: compute_hashes_def fresh_hashing_def length_hexdigest del: set_simps)
qed

lemma hexdigest_known:
  "hexdigest (0xd41d8cd98f00b204e9800998ecf8427e :: 128 word) = ''d41d8cd98f00b204e9800998ecf8427e''"
  "hexdigest (0xda39a3ee5e6b4b0d3255bfef95601890afd80709 :: 160 word)
        = ''da39a3ee5e6b4b0d3255bfef95601890afd80709''"
  "hexdigest (0xe3b0c44298fc1c149afbf4c8996fb92427ae41e4649b934ca495991b7852b855 :: 256 word)
        = ''e3b0c44298fc1c149afbf4c8996fb92427ae41e4649b934ca495991b7852b855''"
  by (simp_all add: hexdigest_def hex_digit_def upt_rec)

text \<open>
  C9.  For a file of length zero the first read returns nothing: the loop prints the closing
  line break at once, no percentage is computed (so nothing is divided by the size zero),
  and the result holds the digests of the empty byte sequence.  For the values that MD5,
  SHA-1 and SHA-256 have on the empty input these are the well-known texts.
\<close>

theorem compute_hashes_empty_file:
  "compute_hashes L p 0 [] =
     Inr (\<lparr> path = p, md5 = hexdigest (md5_digest L []), sha1 = hexdigest (sha1_digest L []),
            sha256 = hexdigest (sha256_digest L []) \<rparr>,
          [Line (CHR 0x0A # ''Hashing '' @ p), Line []])
   \<and> hexdigest (0xd41d8cd98f00b204e9800998ecf8427e :: 128 word) = ''d41d8cd98f00b204e9800998ecf8427e''
   \<and> hexdigest (0xda39a3ee5e6b4b0d3255bfef95601890afd80709 :: 160 word)
        = ''da39a3ee5e6b4b0d3255bfef95601890afd80709''
   \<and> hexdigest (0xe3b0c44298fc1c149afbf4c8996fb92427ae41e4649b934ca495991b7852b855 :: 256 word)
        = ''e3b0c44298fc1c149afbf4c8996fb92427ae41e4649b934ca495991b7852b855''"
proof -
  have "compute_hashes L p 0 [] =
     Inr (\<lparr> path = p, md5 = hexdigest (md5_digest L []), sha1 = hexdigest (sha1_digest L []),
            sha256 = hexdigest (sha256_digest L []) \<rparr>,
          [Line (CHR 0x0A # ''Hashing '' @ p), Line []])"
    by (simp add: compute_hashes_def fresh_hashing_def hash_loop.simps)
  with hexdigest_known show ?thesis by (simp only: simp_thms)
qed

text \<open>
  C6 (the code departs from the claim).  Line 225 adds \<^verbatim>\<open>chunk_size\<close> to \<^verbatim>\<open>amount\<close>
  for every chunk, also for a last chunk that is shorter.  For a file of 20000 bytes the
  second chunk has 3616 bytes, \<^verbatim>\<open>amount\<close> becomes 32768 and the marker printed is 163,
  where 100 * 20000 div 20000 is 100.
\<close>

theorem compute_hashes_progress_overshoots:
  "map_sum id snd (compute_hashes L ''/tmp/image.dmg'' 20000 (replicate 20000 0)) =
     Inr [Line (CHR 0x0A # ''Hashing /tmp/image.dmg''), Marker 81, Marker 163, Line []]"
  by (simp add: compute_hashes_def fresh_hashing_def hash_loop.simps chunk_size_def Let_def)

subsection \<open>Evaluating the model on a host\<close>

lemma re_split_ws_numeral:
  "re_split_ws (numeral k) s =
     (let field = takeWhile (\<lambda>c. \<not> is_space c) s;
          rest = dropWhile (\<lambda>c. \<not> is_space c) s
      in if rest = [] then [field]
         else field # re_split_ws (pred_numeral k) (dropWhile is_space rest))"
  by (simp add: numeral_eq_Suc)

lemmas text_defs = splitlines_def is_linebreak_def item_def split_sep_def strip_def is_space_def
  split_ws_def re_split_ws_numeral Path_def path_join_def
lemmas host_defs = host_def usual_answer_def command_def default_parameters_def
  image_script_def destination_script_def
lemmas step_defs = execute_def copy_and_report_def gather_hardware_info_def gather_path_info.simps
  int_truediv_512_def nearest_double_def bit_length.simps Let_def run_silent_def run_process_def
  run_status_def caffeinate_def make_details_def prompt_for_image_def prompt_for_destination_def
  falsy_def mount_snapshot_image_def get_disk_device_from_mount_def detach_mounted_image_def
  copy_with_ditto_def write_report_def find_mount_point_def find_mount_loop.simps
  dirname_def

subsection \<open>Inspecting a path\<close>

lemma bit_length_le: "n < 2 ^ k \<Longrightarrow> bit_length n \<le> k"
proof (induction k arbitrary: n)
  case 0
  then show ?case by (simp add: bit_length.simps)
next
  case (Suc k)
  show ?case
  proof (cases "n = 0")
    case True
    then show ?thesis by (simp add: bit_length.simps)
  next
    case False
    from Suc.prems have "n div 2 < 2 ^ k" by simp
    then have "bit_length (n div 2) \<le> k" by (rule Suc.IH)
    with False show ?thesis by (subst bit_length.simps) simp
  qed
qed

lemma int_truediv_512_exact:
  assumes "a < 2 ^ 53"
  shows "int_truediv_512 a = Inr (int (a div 512))"
proof -
  from assms have "bit_length a \<le> 53" by (rule bit_length_le)
  then have "nearest_double a = a" by (simp add: nearest_double_def)
  moreover have "a < 2 ^ 1033"
  proof -
    have "(2::nat) ^ 53 \<le> 2 ^ 1033" by (rule power_increasing) simp_all
    with assms show ?thesis by linarith
  qed
  ultimately show ?thesis by (simp add: int_truediv_512_def)
qed

lemma make_details_fields:
  "make_details E p isd sectors device info = Inr d \<Longrightarrow>
     is_disk d = isd \<and> disk_sectors d = sectors \<and> disk_device d = device \<and> disk_info d = info"
  by (auto simp: make_details_def split: option.splits)

lemma inspect_root_usual:
  "gather_path_info host_usual ''/'' [] = (Inr root_details, [Run (volume_info ''/'')])"
  by (simp add: host_usual_def root_details_def host_defs step_defs text_defs)

text \<open>
  C7 (amended).  For a path whose file system reports \<open>f_blocks\<close> blocks of \<open>f_frsize\<close>
  bytes with a product below \<open>2 ^ 53\<close>: whenever \<^verbatim>\<open>_gather_path_info\<close> returns,
  \<^verbatim>\<open>disk_sectors\<close> is the integer quotient of the product by 512 and \<^verbatim>\<open>is_disk\<close> is true
  exactly when the path is a mount point and the volume-info query exits with status zero;
  and it does return, with \<^verbatim>\<open>is_disk\<close> true, for a mount point whose device number can be
  read and whose query exits with status zero and prints a second line with a colon.
\<close>

theorem gather_path_info_sectors:
  assumes stat: "statvfs E p = Some (f_blocks, f_frsize)"
    and small: "f_blocks * f_frsize < 2 ^ 53"
  shows "(gather_path_info E p tr = (Inr details, tr')
            \<longrightarrow> disk_sectors details = int (f_blocks * f_frsize div 512)
              \<and> is_disk details = (ismount E p \<and> fst (proc E tr (volume_info p)) = 0))
     \<and> (ismount E p \<and> stat_dev E p = Some dev \<and> proc E tr (volume_info p) = (0, info)
          \<and> item (splitlines info) 1 = Inr line \<and> item (split_sep CHR '':'' line) 1 = Inr field
            \<longrightarrow> gather_path_info E p tr =
                  (Inr \<lparr> PathDetails.path = p, is_disk = True,
                         disk_sectors = int (f_blocks * f_frsize div 512),
                         disk_device = strip field, disk_identifier = dev, disk_info = info \<rparr>,
                   tr @ [Run (volume_info p)]))"
proof (rule conjI; rule impI)
  assume "gather_path_info E p tr = (Inr details, tr')"
  with stat small
  show "disk_sectors details = int (f_blocks * f_frsize div 512)
     \<and> is_disk details = (ismount E p \<and> fst (proc E tr (volume_info p)) = 0)"
    by (subst (asm) gather_path_info.simps)
       (auto simp: int_truediv_512_exact run_silent_def caffeinate_def Let_def
             split: option.splits sum.splits if_splits prod.splits
             dest!: make_details_fields)
next
  assume "ismount E p \<and> stat_dev E p = Some dev \<and> proc E tr (volume_info p) = (0, info)
          \<and> item (splitlines info) 1 = Inr line \<and> item (split_sep CHR '':'' line) 1 = Inr field"
  with stat small
  show "gather_path_info E p tr =
                  (Inr \<lparr> PathDetails.path = p, is_disk = True,
                         disk_sectors = int (f_blocks * f_frsize div 512),
                         disk_device = strip field, disk_identifier = dev, disk_info = info \<rparr>,
                   tr @ [Run (volume_info p)])"
    by (subst gather_path_info.simps)
       (simp add: int_truediv_512_exact run_silent_def caffeinate_def Let_def make_details_def)
qed

text \<open>
  The theorem at the numbers of the specification: 1000 blocks of 512 bytes on the mounted
  volume \<^verbatim>\<open>/\<close> give 1000 sectors and \<^verbatim>\<open>is_disk\<close> true.
\<close>

theorem gather_path_info_sectors_witness:
  "gather_path_info host_usual ''/'' [] = (Inr root_details, [Run (volume_info ''/'')])
   \<and> statvfs host_usual ''/'' = Some (1000, 512)
   \<and> disk_sectors root_details = 1000 \<and> is_disk root_details"
proof -
  have stat: "statvfs host_usual ''/'' = Some (1000, 512)"
    by (simp add: host_usual_def host_def)
  have small: "(1000::nat) * 512 < 2 ^ 53" by simp
  have answer: "ismount host_usual ''/'' \<and> stat_dev host_usual ''/'' = Some 16777220
      \<and> proc host_usual [] (volume_info ''/'') =
           (0, ''   Device Identifier:   disk3s1\<newline>   Device Node:   /dev/disk3s1\<newline>'')
      \<and> item (splitlines ''   Device Identifier:   disk3s1\<newline>   Device Node:   /dev/disk3s1\<newline>'') 1
           = Inr ''   Device Node:   /dev/disk3s1''
      \<and> item (split_sep CHR '':'' ''   Device Node:   /dev/disk3s1'') 1 = Inr ''   /dev/disk3s1''"
    by (simp add: host_usual_def host_defs text_defs)
  from gather_path_info_sectors [OF stat small, of "[]" root_details "[Run (volume_info ''/'')]"
      16777220 "''   Device Identifier:   disk3s1\<newline>   Device Node:   /dev/disk3s1\<newline>''"
      "''   Device Node:   /dev/disk3s1''" "''   /dev/disk3s1''"] answer stat
  show ?thesis by (simp add: root_details_def strip_def is_space_def)
qed

text \<open>
  C7 as stated fails on the code.  For 9007199254740993 blocks of 4096 bytes the product
  needs more than 53 bits; the true division of line 104 rounds it, and the method
  returns 72057594037927936 sectors where the integer quotient is 72057594037927944.
\<close>

theorem gather_path_info_sectors_rounded:
  "gather_path_info host_usual ''/Volumes/Archive'' [] =
     (Inr archive_details, [Run (volume_info ''/Volumes/Archive'')])
   \<and> statvfs host_usual ''/Volumes/Archive'' = Some (9007199254740993, 4096)
   \<and> disk_sectors archive_details = 72057594037927936
   \<and> int (9007199254740993 * 4096 div 512) = 72057594037927944"
  by (simp add: host_usual_def archive_details_def host_defs step_defs text_defs)

text \<open>
  C8 (amended).  For a mount point whose statistics can be read and whose volume-info
  query exits with a nonzero status, \<^verbatim>\<open>_gather_path_info\<close> returns: \<^verbatim>\<open>is_disk\<close> is
  false, the device identifier is empty, \<^verbatim>\<open>disk_info\<close> is the output of the failed
  query, and that query is the only command run: no ancestor is looked for.
\<close>

theorem gather_path_info_failed_query:
  assumes "ismount E p"
    and "statvfs E p = Some (f_blocks, f_frsize)"
    and "int_truediv_512 (f_blocks * f_frsize) = Inr sectors"
    and "stat_dev E p = Some dev"
    and "fst (proc E tr (volume_info p)) \<noteq> 0"
  shows "gather_path_info E p tr =
     (Inr \<lparr> PathDetails.path = p, is_disk = False, disk_sectors = sectors, disk_device = [],
            disk_identifier = dev, disk_info = snd (proc E tr (volume_info p)) \<rparr>,
      tr @ [Run (volume_info p)])"
  using assms
  by (subst gather_path_info.simps)
     (auto simp: run_silent_def caffeinate_def Let_def make_details_def split: prod.splits)

text \<open>
  The theorem on \<open>host_query_fails\<close>, where the query for \<^verbatim>\<open>/Volumes/Ext\<close> exits with
  status 1.
\<close>

theorem gather_path_info_failed_query_witness:
  "gather_path_info host_query_fails ''/Volumes/Ext'' [] =
     (Inr unanswered_details, [Run (volume_info ''/Volumes/Ext'')])"
proof -
  have "ismount host_query_fails ''/Volumes/Ext''"
    and "statvfs host_query_fails ''/Volumes/Ext'' = Some (1000, 512)"
    and "int_truediv_512 (1000 * 512) = Inr 1000"
    and "stat_dev host_query_fails ''/Volumes/Ext'' = Some 16777220"
    and "fst (proc host_query_fails [] (volume_info ''/Volumes/Ext'')) \<noteq> 0"
    by (simp_all add: host_query_fails_def host_defs int_truediv_512_def nearest_double_def
        bit_length.simps)
  from gather_path_info_failed_query [OF this]
  show ?thesis by (simp add: unanswered_details_def host_query_fails_def host_defs)
qed

text \<open>
  C8 as stated fails on the code: the branch of line 113 does not go on to the ancestor
  walk of lines 115-118.  On \<open>host_query_fails\<close> the walk would end at
  \<^verbatim>\<open>/Volumes/Ext\<close> itself, or at \<^verbatim>\<open>/\<close> when started from the parent directory, and
  describing either takes a volume-info query of its own; the run holds the one failed
  query only, and its \<^verbatim>\<open>disk_info\<close> is that query's output, not the description of
  \<^verbatim>\<open>/\<close>.
\<close>

theorem gather_path_info_no_ancestor_walk:
  "gather_path_info host_query_fails ''/Volumes/Ext'' [] =
     (Inr unanswered_details, [Run (volume_info ''/Volumes/Ext'')])
   \<and> find_mount_point host_query_fails ''/Volumes/Ext'' = Some ''/Volumes/Ext''
   \<and> find_mount_point host_query_fails (dirname ''/Volumes/Ext'') = Some ''/''
   \<and> gather_path_info host_query_fails ''/'' [] = (Inr root_details, [Run (volume_info ''/'')])
   \<and> Run (volume_info ''/'') \<notin> set (snd (gather_path_info host_query_fails ''/Volumes/Ext'' []))
   \<and> disk_info unanswered_details \<noteq> disk_info root_details"
  by (simp add: host_query_fails_def unanswered_details_def root_details_def host_defs step_defs text_defs)

subsection \<open>The snapshot-mount method\<close>

lemma copy_attempted_append: "copy_attempted t \<Longrightarrow> copy_attempted (t @ ev)"
  by (simp add: copy_attempted_def)

lemma detach_mounted_image_extends: "\<exists>ev. snd (detach_mounted_image E m t) = t @ ev"
  by (auto simp: detach_mounted_image_def get_disk_device_from_mount_def run_status_def Let_def
      split: prod.splits sum.splits if_splits)

lemma write_report_extends: "\<exists>ev. snd (write_report r t) = t @ ev"
  by (auto simp: write_report_def Let_def split: option.splits)

lemma copy_with_ditto_attempted: "copy_attempted (snd (copy_with_ditto E src dst t))"
  by (simp add: copy_with_ditto_def run_status_def caffeinate_def copy_attempted_def Let_def
      split: prod.splits)

lemma copy_and_report_attempted: "copy_attempted (snd (copy_and_report E r m d t))"
proof -
  obtain copied t1 where c: "copy_with_ditto E m d t = (copied, t1)" by (cases "copy_with_ditto E m d t")
  then have a1: "copy_attempted t1" using copy_with_ditto_attempted [of E m d t] by simp
  obtain x t2 where dm: "detach_mounted_image E m t1 = (x, t2)" by (cases "detach_mounted_image E m t1")
  then have a2: "copy_attempted t2"
    using detach_mounted_image_extends [of E m t1] a1 by (auto simp: copy_attempted_append)
  show ?thesis
  proof (cases x)
    case (Inl e)
    with c dm a2 show ?thesis by (simp add: copy_and_report_def)
  next
    case (Inr detached)
    let ?r2 = "r \<lparr> success := copied, end_time := Some (now E t2),
                   output_files := output_files r @ [Path d] \<rparr>"
    from write_report_extends [of ?r2 t2] a2
    have "copy_attempted (snd (write_report ?r2 t2))" by (auto simp: copy_attempted_append)
    with Inr c dm a2 show ?thesis
      by (auto simp: copy_and_report_def Let_def split: prod.splits sum.splits)
  qed
qed



lemma detach_mounted_image_returns:
  assumes "\<And>m t. \<exists>device. fst (get_disk_device_from_mount E m t) = Inr device"
  shows "\<exists>detached t'. detach_mounted_image E m t = (Inr detached, t')"
proof -
  obtain device where "fst (get_disk_device_from_mount E m t) = Inr device"
    using assms by blast
  then show ?thesis
    by (cases "get_disk_device_from_mount E m t")
       (auto simp: detach_mounted_image_def split: prod.splits)
qed

lemma copy_and_report_returns:
  assumes df: "\<And>m t. \<exists>device. fst (get_disk_device_from_mount E m t) = Inr device"
    and copy: "\<And>src dst t. fst (proc E t (copy_command src dst)) \<noteq> 0"
  shows "\<exists>r' t'. copy_and_report E r m d t = (Inr r', t')"
proof -
  obtain t1 where c: "copy_with_ditto E m d t = (False, t1)"
    using copy [of t m d] by (simp add: copy_with_ditto_def run_status_def caffeinate_def Let_def)
  obtain detached t2 where "detach_mounted_image E m t1 = (Inr detached, t2)"
    using detach_mounted_image_returns [OF df] by blast
  with c show ?thesis by (simp add: copy_and_report_def)
qed

lemma run_image_cancelled:
  "execute host_image_cancelled default_parameters [] =
     (Inr inspected_report, [Run hardware_profile, Run (volume_info ''/''), Run choose_image])"
  by (simp add: host_image_cancelled_def inspected_report_def root_details_def host_defs step_defs text_defs)

lemma run_mount_fails:
  "execute host_mount_fails default_parameters [] =
     (Inr inspected_report,
      [Run hardware_profile, Run (volume_info ''/''), Run choose_image,
       Run (attach ''/Users/lab/snapshot.dmg''), Echo ''attach failed''])"
  by (simp add: host_mount_fails_def inspected_report_def root_details_def host_defs step_defs text_defs)

lemma run_destination_cancelled:
  "execute host_destination_cancelled default_parameters [] =
     (Inr inspected_report,
      [Run hardware_profile, Run (volume_info ''/''), Run choose_image,
       Run (attach ''/Users/lab/snapshot.dmg''), Echo attach_output, Run choose_destination,
       Run [''df'', ''/Volumes/Snap''], Run (detach ''/dev/disk4s1''), Echo []])"
  by (simp add: host_destination_cancelled_def inspected_report_def root_details_def host_defs step_defs text_defs)


lemma no_copy_1: "\<not> copy_attempted [Run hardware_profile, Run (volume_info ''/''), Run choose_image]"
  by (simp add: copy_attempted_def)

lemma no_copy_2: "\<not> copy_attempted [Run hardware_profile, Run (volume_info ''/''), Run choose_image,
       Run (attach ''/Users/lab/snapshot.dmg''), Echo ''attach failed'']"
  by (simp add: copy_attempted_def)

lemma no_copy_3: "\<not> copy_attempted [Run hardware_profile, Run (volume_info ''/''), Run choose_image,
       Run (attach ''/Users/lab/snapshot.dmg''), Echo attach_output, Run choose_destination,
       Run [''df'', ''/Volumes/Snap''], Run (detach ''/dev/disk4s1''), Echo []]"
  by (simp add: copy_attempted_def)

lemma inspect_root:
  "gather_path_info host_copy_fails ''/'' t = (Inr root_details, t @ [Run (volume_info ''/'')])"
  by (simp add: host_copy_fails_def root_details_def host_defs step_defs text_defs)

lemma df_answer:
  "fst (get_disk_device_from_mount host_copy_fails m t) = Inr (Some ''/dev/disk4s1'')"
  by (simp add: host_copy_fails_def host_defs step_defs text_defs)

lemma copy_answer: "fst (proc host_copy_fails t (copy_command src dst)) \<noteq> 0"
  by (simp add: host_copy_fails_def host_defs)

lemma execute_cases:
  assumes inspect: "\<exists>details t'. gather_path_info E (source params) (tr @ [Run hardware_profile]) = (Inr details, t')"
    and df: "\<And>m t. \<exists>device. fst (get_disk_device_from_mount E m t) = Inr device"
  shows "(\<exists>report tr'. execute E params tr = (Inr report, tr'))
     \<or> (\<exists>r m d t. execute E params tr = copy_and_report E r m d t)"
proof -
  have hw: "gather_hardware_info E tr = (snd (proc E tr hardware_profile), tr @ [Run hardware_profile])"
    by (simp add: gather_hardware_info_def run_silent_def caffeinate_def Let_def split: prod.splits)
  obtain details t2 where pd: "gather_path_info E (source params) (tr @ [Run hardware_profile]) = (Inr details, t2)"
    using inspect by blast
  obtain img t3 where im: "prompt_for_image E t2 = (img, t3)"
    by (cases "prompt_for_image E t2")
  obtain mounted t4 where mo: "mount_snapshot_image E (the img) t3 = (mounted, t4)"
    by (cases "mount_snapshot_image E (the img) t3")
  obtain dest t5 where de: "prompt_for_destination E t4 = (dest, t5)"
    by (cases "prompt_for_destination E t4")
  obtain detached t6 where dm: "detach_mounted_image E (the mounted) t5 = (Inr detached, t6)"
    using detach_mounted_image_returns [OF df] by blast
  let ?r = "\<lparr> parameters = params, method_name = ''Snapshot Mount'',
              start_time = Some (now E tr), end_time = None, path_details = Some details,
              hardware_info = snd (proc E tr hardware_profile), success = False,
              output_files = [], result = None \<rparr>"
  from hw pd im mo de dm
  have "execute E params tr =
          (if falsy img then (Inr ?r, t3)
           else if falsy mounted then (Inr ?r, t4)
           else if falsy dest then (Inr ?r, t6)
           else copy_and_report E ?r (the mounted) (the dest) t5)"
    by (simp add: execute_def Let_def)
  then show ?thesis by metis
qed

lemma inspect_root_cancelled:
  "gather_path_info host_image_cancelled ''/'' t = (Inr root_details, t @ [Run (volume_info ''/'')])"
  by (simp add: host_image_cancelled_def root_details_def host_defs step_defs text_defs)

lemma df_answer_cancelled:
  "fst (get_disk_device_from_mount host_image_cancelled m t) = Inr (Some ''/dev/disk4s1'')"
  by (simp add: host_image_cancelled_def host_defs step_defs text_defs)

text \<open>
  C1 (amended).  \<^verbatim>\<open>execute\<close> returns a Report, and raises nothing, whenever the
  inspection of the source path returns, the device column of the \<^verbatim>\<open>df\<close> output can be
  read, and the run either does not reach the copy command (a chooser is cancelled, the
  image is not mounted) or is on a host where that command exits with a nonzero status.
\<close>

theorem execute_returns_report:
  assumes inspect: "\<exists>details t'. gather_path_info E (source params) (tr @ [Run hardware_profile]) = (Inr details, t')"
    and df: "\<And>m t. \<exists>device. fst (get_disk_device_from_mount E m t) = Inr device"
    and copy: "copy_attempted (snd (execute E params tr))
                 \<longrightarrow> (\<forall>src dst t. fst (proc E t (copy_command src dst)) \<noteq> 0)"
  shows "\<exists>report tr'. execute E params tr = (Inr report, tr')"
proof -
  from execute_cases [OF inspect df]
  show ?thesis
  proof
    assume "\<exists>report tr'. execute E params tr = (Inr report, tr')"
    then show ?thesis .
  next
    assume "\<exists>r m d t. execute E params tr = copy_and_report E r m d t"
    then obtain r m d t where run: "execute E params tr = copy_and_report E r m d t" by blast
    then have "copy_attempted (snd (execute E params tr))"
      by (simp add: copy_and_report_attempted)
    with copy have "\<And>src dst t. fst (proc E t (copy_command src dst)) \<noteq> 0" by blast
    from copy_and_report_returns [OF df this] run show ?thesis by simp
  qed
qed

text \<open>
  The theorem on \<open>host_copy_fails\<close>, where every step up to the copy succeeds and
  \<^verbatim>\<open>ditto\<close> exits with status 1, and on \<open>host_image_cancelled\<close>, where the run ends
  at the first chooser.
\<close>

theorem execute_returns_report_witness:
  "(\<exists>report tr'. execute host_copy_fails default_parameters [] = (Inr report, tr'))
   \<and> (\<exists>report tr'. execute host_image_cancelled default_parameters [] = (Inr report, tr'))"
proof
  show "\<exists>report tr'. execute host_copy_fails default_parameters [] = (Inr report, tr')"
  proof (rule execute_returns_report)
    show "\<exists>details t'. gather_path_info host_copy_fails (source default_parameters)
            ([] @ [Run hardware_profile]) = (Inr details, t')"
      using inspect_root by (simp add: default_parameters_def)
    show "\<exists>device. fst (get_disk_device_from_mount host_copy_fails m t) = Inr device" for m t
      using df_answer by simp
    show "copy_attempted (snd (execute host_copy_fails default_parameters []))
            \<longrightarrow> (\<forall>src dst t. fst (proc host_copy_fails t (copy_command src dst)) \<noteq> 0)"
      using copy_answer by blast
  qed
  show "\<exists>report tr'. execute host_image_cancelled default_parameters [] = (Inr report, tr')"
  proof (rule execute_returns_report)
    show "\<exists>details t'. gather_path_info host_image_cancelled (source default_parameters)
            ([] @ [Run hardware_profile]) = (Inr details, t')"
      using inspect_root_cancelled by (simp add: default_parameters_def)
    show "\<exists>device. fst (get_disk_device_from_mount host_image_cancelled m t) = Inr device" for m t
      using df_answer_cancelled by simp
    show "copy_attempted (snd (execute host_image_cancelled default_parameters []))
            \<longrightarrow> (\<forall>src dst t. fst (proc host_image_cancelled t (copy_command src dst)) \<noteq> 0)"
      using no_copy_1 by (simp add: run_image_cancelled)
  qed
qed

text \<open>
  C1 as stated fails on the code.  On \<open>host_short_volume_info\<close> the volume-info query
  for the source \<^verbatim>\<open>/\<close> exits with status zero and prints nothing; \<^verbatim>\<open>lines[1]\<close> at
  line 111 of \<^verbatim>\<open>abstract.py\<close> raises \<^verbatim>\<open>IndexError\<close>, which \<^verbatim>\<open>execute\<close> does not
  catch.
\<close>

theorem execute_short_volume_info_raises:
  "execute host_short_volume_info default_parameters [] =
     (Inl IndexError, [Run hardware_profile, Run (volume_info ''/'')])"
  by (simp add: host_short_volume_info_def host_defs step_defs text_defs)

text \<open>
  C2 (the code departs from the claim).  On \<open>host_usual\<close> every command succeeds and
  the copy exits with status zero.  \<^verbatim>\<open>execute\<close> then calls \<^verbatim>\<open>_write_report\<close> with a
  report whose \<^verbatim>\<open>result\<close> is still \<^verbatim>\<open>None\<close>: the report file is opened, reading
  \<^verbatim>\<open>report.result.path\<close> raises \<^verbatim>\<open>AttributeError\<close>, the file stays empty and no
  Report is returned.
\<close>

theorem execute_copy_succeeded_raises:
  "execute host_usual default_parameters [] =
     (Inl AttributeError,
      [Run hardware_profile, Run (volume_info ''/''), Run choose_image,
       Run (attach ''/Users/lab/snapshot.dmg''), Echo attach_output, Run choose_destination,
       Run (copy_command ''/Volumes/Snap'' ''/Volumes/Evidence/''), Echo [],
       Tee ''/Volumes/Evidence/ditto_copy.log'' [],
       Run [''df'', ''/Volumes/Snap''], Run (detach ''/dev/disk4s1''), Echo [],
       Mkdir ''/Volumes/Fuji/FujiAcquisition'',
       Write ''/Volumes/Fuji/FujiAcquisition/FujiAcquisition.txt'' []])"
  by (simp add: host_usual_def host_defs step_defs text_defs)



text \<open>
  C10.  A run of \<^verbatim>\<open>execute\<close> that returns a Report without having run the copy command
  (the image chooser was cancelled, the image could not be mounted or its mount point not
  be read, or the destination chooser was cancelled) returns it with \<^verbatim>\<open>success\<close> false,
  no \<^verbatim>\<open>end_time\<close>, no output file and no result; the parameters, the start time, the
  hardware description and the details of the source path are filled in.
\<close>

theorem execute_abort_report:
  assumes "execute E params tr = (Inr report, tr')" and "\<not> copy_attempted tr'"
  shows "success report = False \<and> end_time report = None \<and> output_files report = []
     \<and> result report = None \<and> parameters report = params
     \<and> start_time report = Some (now E tr)
     \<and> hardware_info report = snd (proc E tr hardware_profile)
     \<and> (\<exists>details. fst (gather_path_info E (source params) (tr @ [Run hardware_profile])) = Inr details
           \<and> path_details report = Some details)"
proof -
  have "\<And>r m d t. snd (copy_and_report E r m d t) \<noteq> tr'"
    using assms(2) copy_and_report_attempted by metis
  then have "\<And>r m d t x. copy_and_report E r m d t \<noteq> (x, tr')"
    by (metis snd_conv)
  with assms(1) show ?thesis
    by (auto simp: execute_def Let_def gather_hardware_info_def run_silent_def caffeinate_def
        split: prod.splits sum.splits if_splits)
qed

text \<open>
  The theorem on three hosts, one for each way to stop before the copy.
\<close>

theorem execute_abort_report_witness:
  "fst (execute host_image_cancelled default_parameters []) = Inr inspected_report
   \<and> fst (execute host_mount_fails default_parameters []) = Inr inspected_report
   \<and> fst (execute host_destination_cancelled default_parameters []) = Inr inspected_report
   \<and> success inspected_report = False \<and> end_time inspected_report = None
   \<and> output_files inspected_report = [] \<and> result inspected_report = None
   \<and> start_time inspected_report = Some ''2024-05-01 10:00:00''
   \<and> hardware_info inspected_report = ''Hardware Overview''
   \<and> path_details inspected_report = Some root_details"
  using execute_abort_report [OF run_image_cancelled no_copy_1]
    execute_abort_report [OF run_mount_fails no_copy_2]
    execute_abort_report [OF run_destination_cancelled no_copy_3]
    run_image_cancelled run_mount_fails run_destination_cancelled
  by (simp add: inspected_report_def)

end
